theory Spec2Isabelle
  imports Main "HOL-Library.Word"
begin

section \<open>The schema (\<^verbatim>\<open>src/codegen/utils.ts\<close>, lines 1 to 33)\<close>

text \<open>
  The schema is read from a JSON document. A default value has the TypeScript type
  \<^verbatim>\<open>string | number | boolean | object\<close>; the numbers of the schema (ids,
  defaults) are integers and are modelled as \<open>int\<close>. An optional member
  (\<^verbatim>\<open>type?\<close>, \<^verbatim>\<open>domain?\<close>, \<^verbatim>\<open>properties?\<close>, a missing
  \<^verbatim>\<open>default-value\<close>) is \<open>None\<close> where JavaScript reads \<^verbatim>\<open>undefined\<close>.
\<close>

datatype json =
    JString string
  | JNumber int
  | JBoolean bool
  | JObject "(string \<times> json) list"

record PropertyDefinition =
  prop_type :: string
  prop_name :: string

record ArgumentDefinition =
  arg_type :: "string option"
  arg_domain :: "string option"
  arg_name :: string
  default_value :: "json option"

record MethodDefinition =
  method_id :: int
  arguments :: "ArgumentDefinition list"
  synchronous :: bool
  response :: "string option"
  method_name :: string
  content :: bool

record ClassDefinition =
  class_id :: int
  methods :: "MethodDefinition list"
  class_name :: string
  properties :: "PropertyDefinition list option"

record ConstantDefinition =
  const_name :: string
  const_value :: int
  const_class :: string

text \<open>
  \<^verbatim>\<open>domains\<close> is searched with \<^verbatim>\<open>find(d => d[0] === arg.domain)\<close> and read with
  \<^verbatim>\<open>d[1]\<close>: a list of entries with two components, the domain name and its primitive
  type.
\<close>

record Spec =
  spec_classes :: "ClassDefinition list"
  spec_domains :: "(string \<times> string) list"
  spec_constants :: "ConstantDefinition list"

section \<open>Errors\<close>

text \<open>
  Every \<^verbatim>\<open>throw\<close> of the generator and of the code it emits is a value:
  \<^item> \<open>Cannot_determine_type\<close>: \<^verbatim>\<open>throw new Error(`Cannot determine type ${arg}`)\<close>
    in \<^verbatim>\<open>resolveType\<close>;
  \<^item> \<open>Undefined_domain\<close>: the \<^verbatim>\<open>TypeError\<close> of \<^verbatim>\<open>domain![1]\<close> in
    \<^verbatim>\<open>resolveType\<close> when \<^verbatim>\<open>find\<close> returned \<^verbatim>\<open>undefined\<close>;
  \<^item> \<open>Unknown_type t\<close>: \<^verbatim>\<open>throw new Error(`Unknown type '${type}'`)\<close> in
    \<^verbatim>\<open>resolveTypescriptType\<close>;
  \<^item> \<open>Unknown_method methodId name\<close>: the emitted
    \<^verbatim>\<open>throw new Error("Unknown method " + methodId + " for class 'name'")\<close>;
  \<^item> \<open>Unknown_class classId\<close>: the emitted
    \<^verbatim>\<open>throw new Error("Unknown class " + classId)\<close>;
  \<^item> \<open>Not_defined f\<close>: a call of a function the emitted module does not declare;
  \<^item> \<open>External msg\<close>: an error raised by the field codec or by a JavaScript builtin.
\<close>

datatype error =
    Cannot_determine_type
  | Undefined_domain
  | Unknown_type string
  | Unknown_method int string
  | Unknown_class int
  | Not_defined string
  | External string

text \<open>\<^verbatim>\<open>xs.map(f)\<close> where \<open>f\<close> may throw: the first throw aborts the map.\<close>

fun map_err :: "('a \<Rightarrow> error + 'b) \<Rightarrow> 'a list \<Rightarrow> error + 'b list" where
  "map_err f [] = Inr []"
| "map_err f (x # xs) =
     (case f x of
        Inl e \<Rightarrow> Inl e
      | Inr y \<Rightarrow> (case map_err f xs of Inl e \<Rightarrow> Inl e | Inr ys \<Rightarrow> Inr (y # ys)))"

section \<open>Type resolution\<close>

definition resolveType :: "Spec \<Rightarrow> ArgumentDefinition \<Rightarrow> error + string" where
  "resolveType spec arg =
     (case arg_type arg of
        Some t \<Rightarrow> Inr t
      | None \<Rightarrow>
          (case arg_domain arg of
             Some dn \<Rightarrow>
               (case find (\<lambda>d. fst d = dn) (spec_domains spec) of
                  Some d \<Rightarrow> Inr (snd d)
                | None \<Rightarrow> Inl Undefined_domain)
           | None \<Rightarrow> Inl Cannot_determine_type))"

definition resolveTypescriptType :: "string \<Rightarrow> error + string" where
  "resolveTypescriptType t =
     (if t = ''longlong'' then Inr ''bigint''
      else if t = ''long'' \<or> t = ''short'' \<or> t = ''octet'' then Inr ''number''
      else if t = ''bit'' then Inr ''boolean''
      else if t = ''shortstr'' \<or> t = ''longstr'' then Inr ''string''
      else if t = ''table'' then Inr ''Record<string, unknown>''
      else if t = ''timestamp'' then Inr ''bigint''
      else Inl (Unknown_type t))"

text \<open>
  The closed set of primitive types: the names \<^verbatim>\<open>resolveTypescriptType\<close> accepts.
  An argument \<open>resolves\<close> when \<^verbatim>\<open>resolveType\<close> returns one of them: the invariant
  of section 3 of the specification (every argument resolves to a primitive type).
\<close>

definition primitive_types :: "string list" where
  "primitive_types =
     [''longlong'', ''long'', ''short'', ''octet'', ''bit'', ''shortstr'', ''longstr'', ''table'',
      ''timestamp'']"

definition resolves :: "Spec \<Rightarrow> ArgumentDefinition \<Rightarrow> bool" where
  "resolves spec arg =
     (case resolveType spec arg of Inl e \<Rightarrow> False | Inr t \<Rightarrow> t \<in> set primitive_types)"


section \<open>Identifier forms\<close>

text \<open>
  Strings are lists of 8-bit characters; the identifiers of a schema are ASCII. On ASCII
  \<^verbatim>\<open>toUpperCase\<close> changes the letters \<^verbatim>\<open>a\<close> to \<^verbatim>\<open>z\<close> and nothing else.
\<close>

definition toUpperCase_char :: "char \<Rightarrow> char" where
  "toUpperCase_char c =
     (let n = (of_char c :: nat)
      in if 97 \<le> n \<and> n \<le> 122 then char_of (n - 32) else c)"

definition toUpperCase :: "string \<Rightarrow> string" where
  "toUpperCase s = map toUpperCase_char s"

text \<open>\<^verbatim>\<open>word.charAt(0).toUpperCase() + word.slice(1, word.length)\<close>\<close>

definition capitalize :: "string \<Rightarrow> string" where
  "capitalize word = toUpperCase (take 1 word) @ drop 1 word"

text \<open>
  \<^verbatim>\<open>name.split(/[-\.]/g)\<close>: the segments between the delimiters, in order; there is
  always at least one segment, and a segment may be empty.
\<close>

definition is_delimiter :: "char \<Rightarrow> bool" where
  "is_delimiter c = (c = CHR ''-'' \<or> c = CHR ''.'')"

fun split_name :: "string \<Rightarrow> string list" where
  "split_name [] = [[]]"
| "split_name (c # cs) =
     (if is_delimiter c then [] # split_name cs
      else (case split_name cs of
              [] \<Rightarrow> [[c]]
            | s # ss \<Rightarrow> (c # s) # ss))"

text \<open>
  \<^verbatim>\<open>const [first, ...rest] = name.split(/[-\.]/g); return first + rest.map(capitalize).join("")\<close>.
  Destructuring an empty array would bind \<^verbatim>\<open>first\<close> to \<^verbatim>\<open>undefined\<close>, which
  \<^verbatim>\<open>+\<close> turns into the text \<^verbatim>\<open>undefined\<close>.
\<close>

definition camelCase :: "string \<Rightarrow> string" where
  "camelCase name =
     (case split_name name of
        [] \<Rightarrow> ''undefined''
      | first # rest \<Rightarrow> first @ concat (map capitalize rest))"

definition pascalCase :: "string \<Rightarrow> string" where
  "pascalCase name = concat (map capitalize (split_name name))"

text \<open>\<^verbatim>\<open>name.replace(/-/g, "_").toUpperCase()\<close>\<close>

definition constantName :: "string \<Rightarrow> string" where
  "constantName name = toUpperCase (map (\<lambda>c. if c = CHR ''-'' then CHR ''_'' else c) name)"

text \<open>
  The constant form in the words of the specification: the segments of the identifier,
  joined with an underscore (\<^verbatim>\<open>segments.join("_")\<close>), in upper case.
\<close>

fun join :: "string \<Rightarrow> string list \<Rightarrow> string" where
  "join sep [] = []"
| "join sep [x] = x"
| "join sep (x # y # ys) = x @ sep @ join sep (y # ys)"

definition spec_constantName :: "string \<Rightarrow> string" where
  "spec_constantName name = toUpperCase (join ''_'' (split_name name))"

section \<open>The emitted declarations\<close>

text \<open>
  The generator fills fixed templates. An emitted fragment is represented by the values
  that fill the holes of its template, in the order of the template; the fixed text of
  the template is the meaning given to the fragment in the next sections.

  A field of an emitted interface is \<^verbatim>\<open>${comment}${name}${isOptional ? "?" : ""}: ${type};\<close>
  where the comment, when there is one, is \<^verbatim>\<open>/** Default ${JSON.stringify(d)} */\<close>.
\<close>

record field_decl =
  fd_comment :: "json option"
  fd_name :: string
  fd_optional :: bool
  fd_type :: string

text \<open>\<^verbatim>\<open>export interface ${name} [extends ${base}] { ${fields.join("\n")} }\<close>\<close>

record interface_decl =
  if_name :: string
  if_extends :: "string option"
  if_fields :: "field_decl list"

text \<open>\<^verbatim>\<open>(clazz.properties || [])\<close>\<close>

definition properties_or_empty :: "ClassDefinition \<Rightarrow> PropertyDefinition list" where
  "properties_or_empty clazz = (case properties clazz of None \<Rightarrow> [] | Some ps \<Rightarrow> ps)"

definition printClassPropertyInterface :: "ClassDefinition \<Rightarrow> error + interface_decl" where
  "printClassPropertyInterface clazz =
     (case map_err (\<lambda>prop.
             case resolveTypescriptType (prop_type prop) of
               Inl e \<Rightarrow> Inl e
             | Inr ty \<Rightarrow> Inr \<lparr>fd_comment = None, fd_name = camelCase (prop_name prop),
                               fd_optional = True, fd_type = ty\<rparr>)
           (properties_or_empty clazz) of
        Inl e \<Rightarrow> Inl e
      | Inr fs \<Rightarrow> Inr \<lparr>if_name = pascalCase (class_name clazz) @ ''Properties'',
                        if_extends = None, if_fields = fs\<rparr>)"

definition printMethodArgsInterface ::
  "Spec \<Rightarrow> ClassDefinition \<Rightarrow> MethodDefinition \<Rightarrow> error + interface_decl" where
  "printMethodArgsInterface spec clazz method =
     (let name = pascalCase (class_name clazz) @ pascalCase (method_name method) @ ''Args''
      in case map_err (\<lambda>arg.
             let isOptional = (default_value arg \<noteq> None);
                 comment = (if isOptional then default_value arg else None)
             in case resolveType spec arg of
                  Inl e \<Rightarrow> Inl e
                | Inr t \<Rightarrow>
                    (case resolveTypescriptType t of
                       Inl e \<Rightarrow> Inl e
                     | Inr ty \<Rightarrow> Inr \<lparr>fd_comment = comment, fd_name = camelCase (arg_name arg),
                                       fd_optional = isOptional, fd_type = ty\<rparr>))
           (arguments method) of
        Inl e \<Rightarrow> Inl e
      | Inr fs \<Rightarrow> Inr \<lparr>if_name = name, if_extends = None, if_fields = fs\<rparr>)"

definition printMethodValueInterface ::
  "Spec \<Rightarrow> ClassDefinition \<Rightarrow> MethodDefinition \<Rightarrow> error + interface_decl" where
  "printMethodValueInterface spec clazz method =
     (let name = pascalCase (class_name clazz) @ pascalCase (method_name method)
      in case map_err (\<lambda>arg.
             case resolveType spec arg of
               Inl e \<Rightarrow> Inl e
             | Inr t \<Rightarrow>
                 (case resolveTypescriptType t of
                    Inl e \<Rightarrow> Inl e
                  | Inr ty \<Rightarrow> Inr \<lparr>fd_comment = None, fd_name = camelCase (arg_name arg),
                                    fd_optional = False, fd_type = ty\<rparr>))
           (arguments method) of
        Inl e \<Rightarrow> Inl e
      | Inr fs \<Rightarrow> Inr \<lparr>if_name = name, if_extends = Some (name @ ''Args''), if_fields = fs\<rparr>)"

section \<open>The emitted encode and decode functions\<close>

text \<open>
  The text \<^verbatim>\<open>getDefaultValue\<close> returns: \<^verbatim>\<open>BigInt(${JSON.stringify(d)})\<close>,
  \<^verbatim>\<open>${JSON.stringify(d)}\<close>, or the value \<^verbatim>\<open>undefined\<close>, which a template prints
  as the text \<^verbatim>\<open>undefined\<close>.
\<close>

datatype default_expr =
    BigInt_of json
  | Literal json
  | Undefined

definition getDefaultValue :: "Spec \<Rightarrow> ArgumentDefinition \<Rightarrow> error + default_expr" where
  "getDefaultValue spec a =
     (case default_value a of
        None \<Rightarrow> Inr Undefined
      | Some d \<Rightarrow>
          (case resolveType spec a of
             Inl e \<Rightarrow> Inl e
           | Inr t \<Rightarrow>
               (case resolveTypescriptType t of
                  Inl e \<Rightarrow> Inl e
                | Inr tsType \<Rightarrow>
                    if tsType = ''bigint'' then Inr (BigInt_of d) else Inr (Literal d))))"

text \<open>
  The value of a field in the emitted encoder: \<^verbatim>\<open>args.${name}\<close>, or
  \<^verbatim>\<open>args.${name} !== undefined ? args.${name} : ${defaultValue}\<close>.
\<close>

datatype value_expr =
    Arg string
  | Arg_or_default string default_expr

text \<open>\<^verbatim>\<open>{ type: "${type}" as const, value: ${value} }\<close>\<close>

record field_expr =
  fe_type :: string
  fe_value :: value_expr

record encode_method_fn =
  emf_name :: string
  emf_argsName :: string
  emf_classId :: int
  emf_methodId :: int
  emf_fields :: "field_expr list"

definition printEncodeMethodFunction ::
  "Spec \<Rightarrow> ClassDefinition \<Rightarrow> MethodDefinition \<Rightarrow> error + encode_method_fn" where
  "printEncodeMethodFunction spec clazz method =
     (let name = ''encode'' @ pascalCase (class_name clazz) @ pascalCase (method_name method);
          argsName = pascalCase (class_name clazz) @ pascalCase (method_name method) @ ''Args''
      in case map_err (\<lambda>arg.
             case resolveType spec arg of
               Inl e \<Rightarrow> Inl e
             | Inr t \<Rightarrow>
                 (let name = camelCase (arg_name arg)
                  in case getDefaultValue spec arg of
                       Inl e \<Rightarrow> Inl e
                     | Inr defaultValue \<Rightarrow>
                         (let v = (if default_value arg \<noteq> None
                                   then Arg_or_default name defaultValue
                                   else Arg name)
                          in Inr \<lparr>fe_type = t, fe_value = v\<rparr>)))
           (arguments method) of
        Inl e \<Rightarrow> Inl e
      | Inr fs \<Rightarrow> Inr \<lparr>emf_name = name, emf_argsName = argsName,
                        emf_classId = class_id clazz, emf_methodId = method_id method,
                        emf_fields = fs\<rparr>)"

text \<open>
  The emitted decoder of a method: the type list handed to \<^verbatim>\<open>enc.decodeFields\<close> and the
  members \<^verbatim>\<open>${camelCase(a.name)}: fields[${i}] as ${tsType}\<close> of the object it returns.
\<close>

record member_expr =
  me_name :: string
  me_index :: nat
  me_cast :: string

record decode_method_fn =
  dmf_name :: string
  dmf_returnName :: string
  dmf_types :: "string list"
  dmf_args :: "member_expr list"

text \<open>\<^verbatim>\<open>xs.map((a, i) => ...)\<close>: the elements with their positions.\<close>

definition indexed :: "'a list \<Rightarrow> ('a \<times> nat) list" where
  "indexed xs = zip xs [0 ..< length xs]"

definition printDecodeMethodFunction ::
  "Spec \<Rightarrow> ClassDefinition \<Rightarrow> MethodDefinition \<Rightarrow> error + decode_method_fn" where
  "printDecodeMethodFunction spec clazz method =
     (let name = ''decode'' @ pascalCase (class_name clazz) @ pascalCase (method_name method);
          returnName = pascalCase (class_name clazz) @ pascalCase (method_name method)
      in case map_err (resolveType spec) (arguments method) of
           Inl e \<Rightarrow> Inl e
         | Inr ts \<Rightarrow>
             (case map_err (\<lambda>(a, i).
                     case resolveType spec a of
                       Inl e \<Rightarrow> Inl e
                     | Inr t \<Rightarrow>
                         (case resolveTypescriptType t of
                            Inl e \<Rightarrow> Inl e
                          | Inr ty \<Rightarrow> Inr \<lparr>me_name = camelCase (arg_name a), me_index = i,
                                            me_cast = ty\<rparr>))
                   (indexed (arguments method)) of
                Inl e \<Rightarrow> Inl e
              | Inr ms \<Rightarrow> Inr \<lparr>dmf_name = name, dmf_returnName = returnName,
                                dmf_types = ts, dmf_args = ms\<rparr>))"

text \<open>
  The emitted dispatcher \<^verbatim>\<open>decodeMethod\<close>: one \<^verbatim>\<open>case ${clazz.id}\<close> for each class,
  holding one \<^verbatim>\<open>case ${method.id}: return { classId, methodId, args: ${name}(r) }\<close> for
  each method and a \<^verbatim>\<open>default\<close> that names the class.
\<close>

record method_case =
  mc_id :: int
  mc_decoder :: string

record class_case =
  cc_id :: int
  cc_methods :: "method_case list"
  cc_name :: string

definition printMethodDecoder :: "Spec \<Rightarrow> class_case list" where
  "printMethodDecoder spec =
     map (\<lambda>clazz.
        \<lparr>cc_id = class_id clazz,
         cc_methods = map (\<lambda>method.
            \<lparr>mc_id = method_id method,
             mc_decoder = ''decode'' @ pascalCase (class_name clazz)
                            @ pascalCase (method_name method)\<rparr>) (methods clazz),
         cc_name = class_name clazz\<rparr>) (spec_classes spec)"

text \<open>
  The emitted header encoder: the class id and the entries
  \<^verbatim>\<open>{ type: "${prop.type}", value: props.${name} }\<close>.
\<close>

record property_expr =
  pe_type :: string
  pe_prop :: string

record encode_header_fn =
  ehf_name :: string
  ehf_argName :: string
  ehf_classId :: int
  ehf_fields :: "property_expr list"

definition printEncodeHeaderFunction :: "ClassDefinition \<Rightarrow> encode_header_fn" where
  "printEncodeHeaderFunction clazz =
     \<lparr>ehf_name = ''encode'' @ pascalCase (class_name clazz) @ ''Header'',
      ehf_argName = pascalCase (class_name clazz) @ ''Properties'',
      ehf_classId = class_id clazz,
      ehf_fields = map (\<lambda>prop. \<lparr>pe_type = prop_type prop, pe_prop = camelCase (prop_name prop)\<rparr>)
                     (properties_or_empty clazz)\<rparr>"

record decode_header_fn =
  dhf_name :: string
  dhf_returnName :: string
  dhf_types :: "string list"
  dhf_props :: "member_expr list"
  dhf_classId :: int

definition printDecodeHeaderFunction :: "ClassDefinition \<Rightarrow> error + decode_header_fn" where
  "printDecodeHeaderFunction clazz =
     (let name = ''decode'' @ pascalCase (class_name clazz) @ ''Header''
      in case map_err (\<lambda>(p, i).
              case resolveTypescriptType (prop_type p) of
                Inl e \<Rightarrow> Inl e
              | Inr ty \<Rightarrow> Inr \<lparr>me_name = camelCase (prop_name p), me_index = i, me_cast = ty\<rparr>)
            (indexed (properties_or_empty clazz)) of
           Inl e \<Rightarrow> Inl e
         | Inr ms \<Rightarrow> Inr \<lparr>dhf_name = name,
                           dhf_returnName = pascalCase (class_name clazz) @ ''Header'',
                           dhf_types = map prop_type (properties_or_empty clazz),
                           dhf_props = ms,
                           dhf_classId = class_id clazz\<rparr>)"

text \<open>
  The emitted dispatcher \<^verbatim>\<open>decodeHeader\<close>: one
  \<^verbatim>\<open>case ${clazz.id}: return decode${pascalCase(clazz.name)}Header(r);\<close> for each class.
\<close>

record header_case =
  hc_id :: int
  hc_decoder :: string

definition printHeaderDecoder :: "Spec \<Rightarrow> header_case list" where
  "printHeaderDecoder spec =
     map (\<lambda>clazz. \<lparr>hc_id = class_id clazz,
                    hc_decoder = ''decode'' @ pascalCase (class_name clazz) @ ''Header''\<rparr>)
       (spec_classes spec)"

section \<open>What the emitted code computes\<close>

subsection \<open>Values, objects and the external codec\<close>

text \<open>
  The values the emitted code handles. \<open>VInherited k\<close> is the member \<open>k\<close> of
  \<^verbatim>\<open>Object.prototype\<close> (a function; for \<^verbatim>\<open>__proto__\<close> the prototype itself).

  An \<^verbatim>\<open>args\<close> or \<^verbatim>\<open>props\<close> object is a plain object, represented by the map of its
  own members. A read \<^verbatim>\<open>args.k\<close> finds the own member \<open>k\<close>; without one it finds the
  member \<open>k\<close> of \<^verbatim>\<open>Object.prototype\<close>, which every plain object inherits; without
  either it gives \<^verbatim>\<open>undefined\<close>.
\<close>

datatype jsval =
    VUndefined
  | VString string
  | VNumber int
  | VBigInt int
  | VBoolean bool
  | VObject "(string \<times> jsval) list"
  | VInherited string

type_synonym object = "string \<rightharpoonup> jsval"

definition prototype_members :: "string list" where
  "prototype_members =
     [''constructor'', ''hasOwnProperty'', ''isPrototypeOf'', ''propertyIsEnumerable'',
      ''toLocaleString'', ''toString'', ''valueOf'', ''__proto__'', ''__defineGetter__'',
      ''__defineSetter__'', ''__lookupGetter__'', ''__lookupSetter__'']"

definition get :: "object \<Rightarrow> string \<Rightarrow> jsval" where
  "get obj k =
     (case obj k of
        Some v \<Rightarrow> v
      | None \<Rightarrow> if k \<in> set prototype_members then VInherited k else VUndefined)"

text \<open>
  An object literal \<^verbatim>\<open>{ k1: v1, k2: v2, ... }\<close>: the members are set from left to right,
  a repeated name keeps the last value. An entry \<^verbatim>\<open>__proto__: v\<close> creates no member
  (it sets the prototype of the new object when \<open>v\<close> is an object); the result is
  represented by its own members.
\<close>

definition object_literal :: "(string \<times> jsval) list \<Rightarrow> object" where
  "object_literal kvs =
     foldl (\<lambda>obj (k, v). obj(k \<mapsto> v)) Map.empty (filter (\<lambda>kv. fst kv \<noteq> ''__proto__'') kvs)"

text \<open>\<^verbatim>\<open>fields[i]\<close>: \<^verbatim>\<open>undefined\<close> beyond the end of the array.\<close>

definition index :: "jsval list \<Rightarrow> nat \<Rightarrow> jsval" where
  "index flds i = (if i < length flds then flds ! i else VUndefined)"


text \<open>
  The emitted code imports the field codec as \<^verbatim>\<open>enc\<close> and reads and writes through
  \<^verbatim>\<open>Deno.Buffer\<close>. The codec is not part of the generator: it is a parameter here.
  A writer-side primitive returns the bytes it produces or throws; a reader-side
  primitive takes the unread bytes of the buffer and returns its result with the bytes
  left unread, or throws.
\<close>

type_synonym bytes = "8 word list"

record codec =
  encodeShortUint :: "int \<Rightarrow> error + bytes"
  decodeShortUint :: "bytes \<Rightarrow> error + int \<times> bytes"
  encodeLongLongUint :: "int \<Rightarrow> error + bytes"
  decodeLongLongUint :: "bytes \<Rightarrow> error + int \<times> bytes"
  encodeFields :: "(string \<times> jsval) list \<Rightarrow> error + bytes"
  decodeFields :: "bytes \<Rightarrow> string list \<Rightarrow> error + jsval list \<times> bytes"
  encodeOptionalFields :: "(string \<times> jsval) list \<Rightarrow> error + bytes"
  decodeOptionalFields :: "bytes \<Rightarrow> string list \<Rightarrow> error + jsval list \<times> bytes"

subsection \<open>The emitted method encoder\<close>






subsection \<open>The emitted method decoders\<close>

text \<open>
  \<^verbatim>\<open>
  const fields = enc.decodeFields(r, [ ... ]);
  const args = { name0: fields[0] as T0, name1: fields[1] as T1, ... }
  return args;
  \<close>
\<close>

definition run_decodeMethodFunction :: "codec \<Rightarrow> decode_method_fn \<Rightarrow> bytes \<Rightarrow> error + object" where
  "run_decodeMethodFunction enc f r =
     (case decodeFields enc r (dmf_types f) of
        Inl e \<Rightarrow> Inl e
      | Inr (flds, r') \<Rightarrow>
          Inr (object_literal (map (\<lambda>m. (me_name m, index flds (me_index m))) (dmf_args f))))"

text \<open>The value \<^verbatim>\<open>{ classId, methodId, args }\<close> that \<^verbatim>\<open>decodeMethod\<close> returns.\<close>

record receive_method =
  rm_classId :: int
  rm_methodId :: int
  rm_args :: object

text \<open>
  \<^verbatim>\<open>
  const r = new Deno.Buffer(data);
  const classId = enc.decodeShortUint(r);
  const methodId = enc.decodeShortUint(r);
  switch(classId) {
    case C: { switch(methodId) {
                case M: return { classId, methodId, args: decodeCM(r) };
                default: throw new Error("Unknown method " + methodId + " for class 'c'") } }
    default: throw new Error("Unknown class " + classId);
  }
  \<close>
  A \<^verbatim>\<open>switch\<close> takes the first \<^verbatim>\<open>case\<close> whose label is equal to the value. The
  decoders the dispatcher calls are the functions of the emitted module, looked up by
  name in \<open>decoders\<close>.
\<close>

definition run_decodeMethod ::
  "codec \<Rightarrow> (string \<rightharpoonup> decode_method_fn) \<Rightarrow> class_case list \<Rightarrow> bytes \<Rightarrow> error + receive_method"
  where
  "run_decodeMethod enc decoders cases data =
     (case decodeShortUint enc data of
        Inl e \<Rightarrow> Inl e
      | Inr (classId, r1) \<Rightarrow>
     (case decodeShortUint enc r1 of
        Inl e \<Rightarrow> Inl e
      | Inr (methodId, r2) \<Rightarrow>
     (case find (\<lambda>cc. cc_id cc = classId) cases of
        None \<Rightarrow> Inl (Unknown_class classId)
      | Some cc \<Rightarrow>
     (case find (\<lambda>mc. mc_id mc = methodId) (cc_methods cc) of
        None \<Rightarrow> Inl (Unknown_method methodId (cc_name cc))
      | Some mc \<Rightarrow>
     (case decoders (mc_decoder mc) of
        None \<Rightarrow> Inl (Not_defined (mc_decoder mc))
      | Some f \<Rightarrow>
     (case run_decodeMethodFunction enc f r2 of
        Inl e \<Rightarrow> Inl e
      | Inr args \<Rightarrow> Inr \<lparr>rm_classId = classId, rm_methodId = methodId, rm_args = args\<rparr>))))))"

subsection \<open>The emitted header encoder and decoders\<close>

text \<open>
  \<^verbatim>\<open>
  const w = new Deno.Buffer();
  w.writeSync(enc.encodeShortUint(${clazz.id}));
  w.writeSync(enc.encodeShortUint(0));
  w.writeSync(enc.encodeLongLongUint(size));
  w.writeSync(enc.encodeOptionalFields([ { type: "T", value: props.name }, ... ]));
  return w.bytes();
  \<close>
\<close>

definition run_encodeHeaderFunction ::
  "codec \<Rightarrow> encode_header_fn \<Rightarrow> int \<Rightarrow> object \<Rightarrow> error + bytes" where
  "run_encodeHeaderFunction enc f body_size props =
     (case encodeShortUint enc (ehf_classId f) of
        Inl e \<Rightarrow> Inl e
      | Inr b1 \<Rightarrow>
     (case encodeShortUint enc 0 of
        Inl e \<Rightarrow> Inl e
      | Inr b2 \<Rightarrow>
     (case encodeLongLongUint enc body_size of
        Inl e \<Rightarrow> Inl e
      | Inr b3 \<Rightarrow>
     (case encodeOptionalFields enc
             (map (\<lambda>pe. (pe_type pe, get props (pe_prop pe))) (ehf_fields f)) of
        Inl e \<Rightarrow> Inl e
      | Inr b4 \<Rightarrow> Inr (b1 @ b2 @ b3 @ b4)))))"

text \<open>The value \<^verbatim>\<open>{ classId: ${clazz.id}, size, props }\<close> a header decoder returns.\<close>

record header =
  h_classId :: int
  h_size :: int
  h_props :: object

text \<open>
  \<^verbatim>\<open>
  const weight = enc.decodeShortUint(r);
  const size = enc.decodeLongLongUint(r);
  const fields = enc.decodeOptionalFields(r, [ ... ]);
  const props = { name0: fields[0] as T0, ... };
  return { classId: ${clazz.id}, size, props };
  \<close>
\<close>

definition run_decodeHeaderFunction :: "codec \<Rightarrow> decode_header_fn \<Rightarrow> bytes \<Rightarrow> error + header" where
  "run_decodeHeaderFunction enc f r =
     (case decodeShortUint enc r of
        Inl e \<Rightarrow> Inl e
      | Inr (weight, r1) \<Rightarrow>
     (case decodeLongLongUint enc r1 of
        Inl e \<Rightarrow> Inl e
      | Inr (body_size, r2) \<Rightarrow>
     (case decodeOptionalFields enc r2 (dhf_types f) of
        Inl e \<Rightarrow> Inl e
      | Inr (flds, r3) \<Rightarrow>
          Inr \<lparr>h_classId = dhf_classId f, h_size = body_size,
               h_props = object_literal
                 (map (\<lambda>m. (me_name m, index flds (me_index m))) (dhf_props f))\<rparr>)))"

text \<open>
  \<^verbatim>\<open>
  const r = new Deno.Buffer(data);
  const classId = enc.decodeShortUint(r);
  switch(classId) {
    case C: return decodeCHeader(r);
    default: throw new Error("Unknown class " + classId);
  }
  \<close>
\<close>

definition run_decodeHeader ::
  "codec \<Rightarrow> (string \<rightharpoonup> decode_header_fn) \<Rightarrow> header_case list \<Rightarrow> bytes \<Rightarrow> error + header"
  where
  "run_decodeHeader enc decoders cases data =
     (case decodeShortUint enc data of
        Inl e \<Rightarrow> Inl e
      | Inr (classId, r) \<Rightarrow>
     (case find (\<lambda>hc. hc_id hc = classId) cases of
        None \<Rightarrow> Inl (Unknown_class classId)
      | Some hc \<Rightarrow>
     (case decoders (hc_decoder hc) of
        None \<Rightarrow> Inl (Not_defined (hc_decoder hc))
      | Some f \<Rightarrow> run_decodeHeaderFunction enc f r)))"

subsection \<open>The emitted module\<close>

text \<open>
  Modelled from the spec: the driver that assembles the emitted module is not in
  \<^verbatim>\<open>src/codegen\<close>. Section 2 of the specification: the driver invokes each synthesizer
  over every class and method of the schema and concatenates the fragments. The two
  tables below hold the decoders of that module by their names: for every class and
  every method of it what \<^verbatim>\<open>printDecodeMethodFunction\<close> returns, for every class what
  \<^verbatim>\<open>printDecodeHeaderFunction\<close> returns. A module that loads declares no name twice.
\<close>

definition emitted_method_decoders :: "Spec \<Rightarrow> (string \<times> decode_method_fn) list" where
  "emitted_method_decoders spec =
     concat (map (\<lambda>clazz.
        concat (map (\<lambda>method.
           case printDecodeMethodFunction spec clazz method of
             Inl e \<Rightarrow> []
           | Inr f \<Rightarrow> [(dmf_name f, f)]) (methods clazz))) (spec_classes spec))"

definition emitted_header_decoders :: "Spec \<Rightarrow> (string \<times> decode_header_fn) list" where
  "emitted_header_decoders spec =
     concat (map (\<lambda>clazz.
        case printDecodeHeaderFunction clazz of
          Inl e \<Rightarrow> []
        | Inr f \<Rightarrow> [(dhf_name f, f)]) (spec_classes spec))"

subsection \<open>The contract of the codec\<close>





section \<open>A codec and a schema to run the emitted code on\<close>

text \<open>
  Modelled from the spec: the field codec (the module \<^verbatim>\<open>enc\<close> of the emitted code) is
  not in \<^verbatim>\<open>src/codegen\<close>. Section 6 of the specification gives its contract: a writer
  for a short unsigned integer, one for a 64-bit unsigned integer, one for an ordered
  list of typed values, one for an ordered list of optional typed values with presence
  tracking, and a reader mirroring each. The codec below is one such codec: big-endian
  integers, length-prefixed strings, one presence octet before each optional value.
  The theorems hold for every codec; this one instantiates them.
\<close>

definition be_bytes :: "nat \<Rightarrow> int \<Rightarrow> bytes" where
  "be_bytes n v = map (\<lambda>i. word_of_int (v div 256 ^ i)) (rev [0 ..< n])"

definition be_value :: "bytes \<Rightarrow> int" where
  "be_value bs = foldl (\<lambda>acc b. acc * 256 + uint b) 0 bs"

definition write_uint :: "nat \<Rightarrow> int \<Rightarrow> error + bytes" where
  "write_uint n v =
     (if 0 \<le> v \<and> v < 256 ^ n then Inr (be_bytes n v) else Inl (External ''out of range''))"

definition read_uint :: "nat \<Rightarrow> bytes \<Rightarrow> error + int \<times> bytes" where
  "read_uint n bs =
     (if length bs < n then Inl (External ''not enough data'')
      else Inr (be_value (take n bs), drop n bs))"

definition write_field :: "string \<times> jsval \<Rightarrow> error + bytes" where
  "write_field f =
     (case f of
        (t, VNumber v) \<Rightarrow>
          (if t = ''octet'' then write_uint 1 v
           else if t = ''short'' then write_uint 2 v
           else if t = ''long'' then write_uint 4 v
           else Inl (External ''bad value''))
      | (t, VBigInt v) \<Rightarrow>
          (if t = ''longlong'' \<or> t = ''timestamp'' then write_uint 8 v
           else Inl (External ''bad value''))
      | (t, VBoolean b) \<Rightarrow>
          (if t = ''bit'' then Inr [if b then 1 else 0] else Inl (External ''bad value''))
      | (t, VString s) \<Rightarrow>
          (if t = ''shortstr'' \<and> length s < 256
           then Inr (word_of_nat (length s) # map (\<lambda>c. word_of_nat (of_char c)) s)
           else Inl (External ''bad value''))
      | _ \<Rightarrow> Inl (External ''bad value''))"

definition read_field :: "string \<Rightarrow> bytes \<Rightarrow> error + jsval \<times> bytes" where
  "read_field t bs =
     (if t = ''octet'' \<or> t = ''short'' \<or> t = ''long'' then
        (case read_uint (if t = ''octet'' then 1 else if t = ''short'' then 2 else 4) bs of
           Inl e \<Rightarrow> Inl e
         | Inr (v, r) \<Rightarrow> Inr (VNumber v, r))
      else if t = ''longlong'' \<or> t = ''timestamp'' then
        (case read_uint 8 bs of Inl e \<Rightarrow> Inl e | Inr (v, r) \<Rightarrow> Inr (VBigInt v, r))
      else if t = ''bit'' then
        (case bs of [] \<Rightarrow> Inl (External ''not enough data'') | b # r \<Rightarrow> Inr (VBoolean (b \<noteq> 0), r))
      else if t = ''shortstr'' then
        (case bs of
           [] \<Rightarrow> Inl (External ''not enough data'')
         | n # r \<Rightarrow>
             if length r < unat n then Inl (External ''not enough data'')
             else Inr (VString (map (\<lambda>b. char_of (unat b)) (take (unat n) r)), drop (unat n) r))
      else Inl (External ''bad type''))"

fun write_fields :: "(string \<times> jsval) list \<Rightarrow> error + bytes" where
  "write_fields [] = Inr []"
| "write_fields (f # fs) =
     (case write_field f of
        Inl e \<Rightarrow> Inl e
      | Inr b \<Rightarrow> (case write_fields fs of Inl e \<Rightarrow> Inl e | Inr bs \<Rightarrow> Inr (b @ bs)))"

fun read_fields :: "bytes \<Rightarrow> string list \<Rightarrow> error + jsval list \<times> bytes" where
  "read_fields bs [] = Inr ([], bs)"
| "read_fields bs (t # ts) =
     (case read_field t bs of
        Inl e \<Rightarrow> Inl e
      | Inr (v, r) \<Rightarrow>
          (case read_fields r ts of Inl e \<Rightarrow> Inl e | Inr (vs, r') \<Rightarrow> Inr (v # vs, r')))"

fun write_optional_fields :: "(string \<times> jsval) list \<Rightarrow> error + bytes" where
  "write_optional_fields [] = Inr []"
| "write_optional_fields ((t, v) # fs) =
     (case (if v = VUndefined then Inr [0]
            else (case write_field (t, v) of Inl e \<Rightarrow> Inl e | Inr b \<Rightarrow> Inr (1 # b))) of
        Inl e \<Rightarrow> Inl e
      | Inr b \<Rightarrow> (case write_optional_fields fs of Inl e \<Rightarrow> Inl e | Inr bs \<Rightarrow> Inr (b @ bs)))"

fun read_optional_fields :: "bytes \<Rightarrow> string list \<Rightarrow> error + jsval list \<times> bytes" where
  "read_optional_fields bs [] = Inr ([], bs)"
| "read_optional_fields bs (t # ts) =
     (case bs of
        [] \<Rightarrow> Inl (External ''not enough data'')
      | p # r \<Rightarrow>
          (case (if p = 0 then Inr (VUndefined, r) else read_field t r) of
             Inl e \<Rightarrow> Inl e
           | Inr (v, r1) \<Rightarrow>
               (case read_optional_fields r1 ts of
                  Inl e \<Rightarrow> Inl e
                | Inr (vs, r2) \<Rightarrow> Inr (v # vs, r2))))"

definition example_codec :: codec where
  "example_codec =
     \<lparr>encodeShortUint = write_uint 2,
      decodeShortUint = read_uint 2,
      encodeLongLongUint = write_uint 8,
      decodeLongLongUint = read_uint 8,
      encodeFields = write_fields,
      decodeFields = read_fields,
      encodeOptionalFields = write_optional_fields,
      decodeOptionalFields = read_optional_fields\<rparr>"


text \<open>
  A schema with one domain and two classes: \<^verbatim>\<open>queue\<close> (id 10) with the method
  \<^verbatim>\<open>declare-ok\<close> (id 40) and two properties, and \<^verbatim>\<open>channel\<close> (id 20) with no methods
  and no \<^verbatim>\<open>properties\<close> member.
\<close>

definition example_queue_name :: ArgumentDefinition where
  "example_queue_name =
     \<lparr>arg_type = None, arg_domain = Some ''queue-name'', arg_name = ''queue-name'',
      default_value = None\<rparr>"

definition example_message_count :: ArgumentDefinition where
  "example_message_count =
     \<lparr>arg_type = Some ''longlong'', arg_domain = None, arg_name = ''message-count'',
      default_value = Some (JNumber 0)\<rparr>"

definition example_no_wait :: ArgumentDefinition where
  "example_no_wait =
     \<lparr>arg_type = Some ''bit'', arg_domain = Some ''queue-name'', arg_name = ''no.wait'',
      default_value = Some (JBoolean False)\<rparr>"

definition example_method :: MethodDefinition where
  "example_method =
     \<lparr>method_id = 40,
      arguments = [example_queue_name, example_message_count, example_no_wait],
      synchronous = True,
      response = None,
      method_name = ''declare-ok'',
      content = False\<rparr>"

definition example_class :: ClassDefinition where
  "example_class =
     \<lparr>class_id = 10,
      methods = [example_method],
      class_name = ''queue'',
      properties = Some [\<lparr>prop_type = ''shortstr'', prop_name = ''content-type''\<rparr>,
                         \<lparr>prop_type = ''octet'', prop_name = ''delivery-mode''\<rparr>]\<rparr>"

definition example_class_no_properties :: ClassDefinition where
  "example_class_no_properties =
     \<lparr>class_id = 20, methods = [], class_name = ''channel'', properties = None\<rparr>"

definition example_spec :: Spec where
  "example_spec =
     \<lparr>spec_classes = [example_class, example_class_no_properties],
      spec_domains = [(''queue-name'', ''shortstr'')],
      spec_constants = [\<lparr>const_name = ''frame-min-size'', const_value = 4096,
                         const_class = ''connection''\<rparr>]\<rparr>"

text \<open>
  What the generator emits for this schema (each is checked against the generator
  below), the two tables of the decoders of the emitted module, and inputs for the
  emitted functions.
\<close>

definition example_encode_fn :: encode_method_fn where
  "example_encode_fn =
     \<lparr>emf_name = ''encodeQueueDeclareOk'', emf_argsName = ''QueueDeclareOkArgs'',
      emf_classId = 10, emf_methodId = 40,
      emf_fields =
        [\<lparr>fe_type = ''shortstr'', fe_value = Arg ''queueName''\<rparr>,
         \<lparr>fe_type = ''longlong'',
          fe_value = Arg_or_default ''messageCount'' (BigInt_of (JNumber 0))\<rparr>,
         \<lparr>fe_type = ''bit'',
          fe_value = Arg_or_default ''noWait'' (Literal (JBoolean False))\<rparr>]\<rparr>"

definition example_decode_fn :: decode_method_fn where
  "example_decode_fn =
     \<lparr>dmf_name = ''decodeQueueDeclareOk'', dmf_returnName = ''QueueDeclareOk'',
      dmf_types = [''shortstr'', ''longlong'', ''bit''],
      dmf_args =
        [\<lparr>me_name = ''queueName'', me_index = 0, me_cast = ''string''\<rparr>,
         \<lparr>me_name = ''messageCount'', me_index = 1, me_cast = ''bigint''\<rparr>,
         \<lparr>me_name = ''noWait'', me_index = 2, me_cast = ''boolean''\<rparr>]\<rparr>"

definition example_args_decl :: interface_decl where
  "example_args_decl =
     \<lparr>if_name = ''QueueDeclareOkArgs'', if_extends = None,
      if_fields =
        [\<lparr>fd_comment = None, fd_name = ''queueName'', fd_optional = False,
          fd_type = ''string''\<rparr>,
         \<lparr>fd_comment = Some (JNumber 0), fd_name = ''messageCount'', fd_optional = True,
          fd_type = ''bigint''\<rparr>,
         \<lparr>fd_comment = Some (JBoolean False), fd_name = ''noWait'', fd_optional = True,
          fd_type = ''boolean''\<rparr>]\<rparr>"

definition example_value_decl :: interface_decl where
  "example_value_decl =
     \<lparr>if_name = ''QueueDeclareOk'', if_extends = Some ''QueueDeclareOkArgs'',
      if_fields =
        [\<lparr>fd_comment = None, fd_name = ''queueName'', fd_optional = False,
          fd_type = ''string''\<rparr>,
         \<lparr>fd_comment = None, fd_name = ''messageCount'', fd_optional = False,
          fd_type = ''bigint''\<rparr>,
         \<lparr>fd_comment = None, fd_name = ''noWait'', fd_optional = False,
          fd_type = ''boolean''\<rparr>]\<rparr>"

definition example_decode_header_fn :: decode_header_fn where
  "example_decode_header_fn =
     \<lparr>dhf_name = ''decodeQueueHeader'', dhf_returnName = ''QueueHeader'',
      dhf_types = [''shortstr'', ''octet''],
      dhf_props =
        [\<lparr>me_name = ''contentType'', me_index = 0, me_cast = ''string''\<rparr>,
         \<lparr>me_name = ''deliveryMode'', me_index = 1, me_cast = ''number''\<rparr>],
      dhf_classId = 10\<rparr>"

definition example_method_decoders :: "string \<rightharpoonup> decode_method_fn" where
  "example_method_decoders = [''decodeQueueDeclareOk'' \<mapsto> example_decode_fn]"

definition example_header_decoders :: "string \<rightharpoonup> decode_header_fn" where
  "example_header_decoders = [''decodeQueueHeader'' \<mapsto> example_decode_header_fn]"

text \<open>
  Two schemas with one class each, of the same name and of different ids, and a schema
  whose argument and property are named \<^verbatim>\<open>constructor\<close>.
\<close>

definition one_class_spec :: "int \<Rightarrow> Spec" where
  "one_class_spec n =
     \<lparr>spec_classes = [\<lparr>class_id = n, methods = [], class_name = ''q'', properties = None\<rparr>],
      spec_domains = [], spec_constants = []\<rparr>"







definition example_props :: object where
  "example_props = [''contentType'' \<mapsto> VString ''x'']"

section \<open>General lemmas\<close>

lemma map_err_Inr_iff:
  "map_err f xs = Inr ys \<longleftrightarrow> list_all2 (\<lambda>x y. f x = Inr y) xs ys"
proof (induction xs arbitrary: ys)
  case Nil
  then show ?case by auto
next
  case (Cons x xs)
  show ?case
    by (cases ys) (auto simp: Cons.IH [symmetric] split: sum.splits)
qed

lemma find_fst_map_of:
  "map_of xs k = Some v \<Longrightarrow> find (\<lambda>d. fst d = k) xs = Some (k, v)"
  by (induction xs) (auto split: if_splits)

lemma find_fst_None:
  "k \<notin> fst ` set xs \<Longrightarrow> find (\<lambda>d. fst d = k) xs = None"
  by (induction xs) auto

lemma map_err_Inl:
  "map_err f xs = Inl e \<Longrightarrow> \<exists>x \<in> set xs. f x = Inl e"
  by (induction xs) (auto split: sum.splits)

lemma map_err_succeeds:
  assumes "\<And>x. x \<in> set xs \<Longrightarrow> \<exists>y. f x = Inr y"
  shows "\<exists>ys. map_err f xs = Inr ys"
proof (cases "map_err f xs")
  case (Inl e)
  then obtain x where "x \<in> set xs" "f x = Inl e"
    using map_err_Inl by blast
  with assms show ?thesis by fastforce
next
  case (Inr ys)
  then show ?thesis by blast
qed

lemma primitive_type_known:
  "t \<in> set primitive_types \<Longrightarrow> \<exists>ty. resolveTypescriptType t = Inr ty"
  by (auto simp: primitive_types_def resolveTypescriptType_def)

lemma known_primitive_type:
  "resolveTypescriptType t = Inr ty \<Longrightarrow> t \<in> set primitive_types"
  by (auto simp: primitive_types_def resolveTypescriptType_def split: if_splits)

lemma resolvesD:
  "resolves spec a \<Longrightarrow> \<exists>t ty. resolveType spec a = Inr t \<and> resolveTypescriptType t = Inr ty"
  by (auto simp: resolves_def split: sum.splits dest: primitive_type_known)

lemma resolvesI:
  "resolveType spec a = Inr t \<Longrightarrow> resolveTypescriptType t = Inr ty \<Longrightarrow> resolves spec a"
  by (simp add: resolves_def known_primitive_type)


section \<open>The example schema and codec\<close>

lemma example_names:
  "camelCase ''queue-name'' = ''queueName''" "camelCase ''message-count'' = ''messageCount''"
  "camelCase ''no.wait'' = ''noWait''" "camelCase ''content-type'' = ''contentType''"
  "camelCase ''delivery-mode'' = ''deliveryMode''" "pascalCase ''channel'' = ''Channel''"
  "pascalCase ''queue'' = ''Queue''" "pascalCase ''declare-ok'' = ''DeclareOk''"
  by code_simp+

lemma example_emitted:
  "printEncodeMethodFunction example_spec example_class example_method = Inr example_encode_fn"
  "printDecodeMethodFunction example_spec example_class example_method = Inr example_decode_fn"
  "printMethodArgsInterface example_spec example_class example_method = Inr example_args_decl"
  "printMethodValueInterface example_spec example_class example_method = Inr example_value_decl"
  "printDecodeHeaderFunction example_class = Inr example_decode_header_fn"
  by code_simp+


lemma example_arg_names:
  "camelCase (arg_name example_queue_name) = ''queueName''"
  "camelCase (arg_name example_message_count) = ''messageCount''"
  "camelCase (arg_name example_no_wait) = ''noWait''"
  by code_simp+






lemma example_resolves:
  "\<forall>a \<in> set (arguments example_method). resolves example_spec a"
  "\<forall>p \<in> set (properties_or_empty example_class). prop_type p \<in> set primitive_types"
  by code_simp+

section \<open>Type resolution\<close>

text \<open>
  C4. For every schema and argument: an explicit type is returned as it is, also when a
  domain is present; with no explicit type, a domain found in the domain table gives
  the primitive type of its (first) entry; with neither, \<^verbatim>\<open>resolveType\<close> throws
  "Cannot determine type" (the specification's \<open>UnresolvedType\<close>); with a domain that
  has no entry in the table it throws on reading the missing entry (the
  specification's \<open>UnknownDomain\<close>).
\<close>

theorem resolveType_cases:
  "(arg_type arg = Some t \<longrightarrow> resolveType spec arg = Inr t) \<and>
   (arg_type arg = None \<and> arg_domain arg = Some dn \<and> map_of (spec_domains spec) dn = Some p
      \<longrightarrow> resolveType spec arg = Inr p) \<and>
   (arg_type arg = None \<and> arg_domain arg = None
      \<longrightarrow> resolveType spec arg = Inl Cannot_determine_type) \<and>
   (arg_type arg = None \<and> arg_domain arg = Some dn \<and> dn \<notin> fst ` set (spec_domains spec)
      \<longrightarrow> resolveType spec arg = Inl Undefined_domain)"
  by (simp add: resolveType_def find_fst_map_of find_fst_None)

theorem resolveType_cases_witness:
  "resolveType example_spec
     \<lparr>arg_type = Some ''bit'', arg_domain = Some ''queue-name'', arg_name = ''no.wait'',
      default_value = None\<rparr> = Inr ''bit'' \<and>
   resolveType example_spec
     \<lparr>arg_type = None, arg_domain = Some ''queue-name'', arg_name = ''queue'',
      default_value = None\<rparr> = Inr ''shortstr'' \<and>
   resolveType example_spec
     \<lparr>arg_type = None, arg_domain = None, arg_name = ''queue'',
      default_value = None\<rparr> = Inl Cannot_determine_type \<and>
   resolveType example_spec
     \<lparr>arg_type = None, arg_domain = Some ''exchange-name'', arg_name = ''exchange'',
      default_value = None\<rparr> = Inl Undefined_domain"
  using resolveType_cases [of "\<lparr>arg_type = Some ''bit'', arg_domain = Some ''queue-name'',
            arg_name = ''no.wait'', default_value = None\<rparr>" "''bit''" example_spec]
    resolveType_cases [of "\<lparr>arg_type = None, arg_domain = Some ''queue-name'',
            arg_name = ''queue'', default_value = None\<rparr>" _ example_spec
            "''queue-name''" "''shortstr''"]
    resolveType_cases [of "\<lparr>arg_type = None, arg_domain = None,
            arg_name = ''queue'', default_value = None\<rparr>" _ example_spec]
    resolveType_cases [of "\<lparr>arg_type = None, arg_domain = Some ''exchange-name'',
            arg_name = ''exchange'', default_value = None\<rparr>" _ example_spec
            "''exchange-name''"]
  by (simp add: example_spec_def)

text \<open>
  C6. \<^verbatim>\<open>resolveTypescriptType\<close> gives \<^verbatim>\<open>bigint\<close> for \<^verbatim>\<open>longlong\<close> and
  \<^verbatim>\<open>timestamp\<close>, \<^verbatim>\<open>boolean\<close> for \<^verbatim>\<open>bit\<close>, \<^verbatim>\<open>string\<close> for \<^verbatim>\<open>shortstr\<close> and
  \<^verbatim>\<open>longstr\<close>, \<^verbatim>\<open>Record<string, unknown>\<close> for \<^verbatim>\<open>table\<close>, \<^verbatim>\<open>number\<close> for
  \<^verbatim>\<open>short\<close>, \<^verbatim>\<open>long\<close> and \<^verbatim>\<open>octet\<close>, and throws "Unknown type" (the
  specification's \<open>UnknownPrimitiveType\<close>) for every other string.
\<close>

theorem resolveTypescriptType_table:
  "resolveTypescriptType ''longlong'' = Inr ''bigint'' \<and>
   resolveTypescriptType ''timestamp'' = Inr ''bigint'' \<and>
   resolveTypescriptType ''bit'' = Inr ''boolean'' \<and>
   resolveTypescriptType ''shortstr'' = Inr ''string'' \<and>
   resolveTypescriptType ''longstr'' = Inr ''string'' \<and>
   resolveTypescriptType ''table'' = Inr ''Record<string, unknown>'' \<and>
   resolveTypescriptType ''short'' = Inr ''number'' \<and>
   resolveTypescriptType ''long'' = Inr ''number'' \<and>
   resolveTypescriptType ''octet'' = Inr ''number'' \<and>
   (t \<notin> {''longlong'', ''timestamp'', ''bit'', ''shortstr'', ''longstr'', ''table'',
          ''short'', ''long'', ''octet''}
      \<longrightarrow> resolveTypescriptType t = Inl (Unknown_type t))"
  by (simp add: resolveTypescriptType_def)

theorem resolveTypescriptType_table_witness:
  "resolveTypescriptType ''float'' = Inl (Unknown_type ''float'')"
  using resolveTypescriptType_table [of "''float''"] by simp

section \<open>Identifier forms\<close>

lemma split_name_not_Nil: "split_name name \<noteq> []"
  by (induction name) (auto split: list.splits)

lemma camelCase_segments:
  "split_name name = first # rest \<Longrightarrow> camelCase name = first @ concat (map capitalize rest)"
  by (simp add: camelCase_def)

lemma forms_of_queue_name:
  "camelCase ''queue-name'' = ''queueName'' \<and> pascalCase ''queue-name'' = ''QueueName'' \<and>
   constantName ''queue-name'' = ''QUEUE_NAME'' \<and>
   constantName ''frame-min-size'' = ''FRAME_MIN_SIZE''"
  by code_simp

lemma toUpperCase_underscore: "toUpperCase_char CHR ''_'' = CHR ''_''"
  by code_simp

lemma join_Cons_head: "join sep ((c # s) # ss) = c # join sep (s # ss)"
  by (cases ss) auto

text \<open>
  On an identifier without a dot, \<^verbatim>\<open>constantName\<close> is the constant form of the
  specification.
\<close>

lemma constantName_without_dot:
  "CHR ''.'' \<notin> set name \<Longrightarrow> constantName name = spec_constantName name"
proof (induction name)
  case Nil
  then show ?case by (simp add: constantName_def spec_constantName_def toUpperCase_def)
next
  case (Cons c cs)
  obtain s ss where ss: "split_name cs = s # ss"
    using split_name_not_Nil [of cs] by (cases "split_name cs") auto
  from Cons have IH:
    "map toUpperCase_char (map (\<lambda>c. if c = CHR ''-'' then CHR ''_'' else c) cs)
       = map toUpperCase_char (join ''_'' (s # ss))"
    by (simp add: constantName_def spec_constantName_def toUpperCase_def ss)
  from Cons.prems have "c \<noteq> CHR ''.''" by auto
  then show ?case
    using IH by (simp add: constantName_def spec_constantName_def toUpperCase_def ss
        is_delimiter_def toUpperCase_underscore join_Cons_head)
qed

text \<open>
  C7. The lower-camel and upper-camel forms are as the claim says (by the definitions of
  \<^verbatim>\<open>camelCase\<close> and \<^verbatim>\<open>pascalCase\<close>). The constant form is not: \<^verbatim>\<open>constantName\<close>
  replaces hyphens only, where \<^verbatim>\<open>camelCase\<close> and \<^verbatim>\<open>pascalCase\<close> split on
  hyphens and dots. On \<^verbatim>\<open>a.b\<close> it returns \<^verbatim>\<open>A.B\<close>, and the constant form of the
  specification is \<^verbatim>\<open>A_B\<close>.
\<close>

theorem constantName_keeps_dot:
  "constantName ''a.b'' = ''A.B'' \<and> spec_constantName ''a.b'' = ''A_B''"
  by code_simp

section \<open>The emitted interfaces\<close>

lemma printMethodArgsInterface_Inr:
  assumes "printMethodArgsInterface spec clazz method = Inr ai"
  shows "list_all2 (\<lambda>a f. fd_name f = camelCase (arg_name a) \<and>
            fd_optional f = (default_value a \<noteq> None) \<and>
            fd_comment f = default_value a \<and>
            (\<exists>t. resolveType spec a = Inr t \<and> resolveTypescriptType t = Inr (fd_type f)))
          (arguments method) (if_fields ai)"
  using assms
  by (auto simp: printMethodArgsInterface_def Let_def map_err_Inr_iff
      split: sum.splits elim!: list_all2_mono)

lemma printMethodValueInterface_Inr:
  assumes "printMethodValueInterface spec clazz method = Inr vi"
  shows "list_all2 (\<lambda>a f. fd_name f = camelCase (arg_name a) \<and>
            \<not> fd_optional f \<and>
            (\<exists>t. resolveType spec a = Inr t \<and> resolveTypescriptType t = Inr (fd_type f)))
          (arguments method) (if_fields vi)"
  using assms
  by (auto simp: printMethodValueInterface_def Let_def map_err_Inr_iff
      split: sum.splits elim!: list_all2_mono)

lemma printMethodArgsInterface_succeeds:
  assumes "\<forall>a \<in> set (arguments method). resolves spec a"
  shows "\<exists>ai. printMethodArgsInterface spec clazz method = Inr ai"
proof (cases "printMethodArgsInterface spec clazz method")
  case (Inl e)
  then obtain a where "a \<in> set (arguments method)"
    and "resolveType spec a = Inl e \<or>
         (\<exists>t. resolveType spec a = Inr t \<and> resolveTypescriptType t = Inl e)"
    by (auto simp: printMethodArgsInterface_def Let_def split: sum.splits dest!: map_err_Inl)
  with assms show ?thesis by (fastforce dest: resolvesD)
next
  case (Inr ai)
  then show ?thesis by blast
qed

lemma printMethodValueInterface_succeeds:
  assumes "\<forall>a \<in> set (arguments method). resolves spec a"
  shows "\<exists>vi. printMethodValueInterface spec clazz method = Inr vi"
proof (cases "printMethodValueInterface spec clazz method")
  case (Inl e)
  then obtain a where "a \<in> set (arguments method)"
    and "resolveType spec a = Inl e \<or>
         (\<exists>t. resolveType spec a = Inr t \<and> resolveTypescriptType t = Inl e)"
    by (auto simp: printMethodValueInterface_def Let_def split: sum.splits dest!: map_err_Inl)
  with assms show ?thesis by (fastforce dest: resolvesD)
next
  case (Inr vi)
  then show ?thesis by blast
qed

text \<open>The declarations are emitted for no other methods.\<close>

lemma printMethodArgsInterface_resolves:
  assumes "printMethodArgsInterface spec clazz method = Inr ai"
  shows "\<forall>a \<in> set (arguments method). resolves spec a"
proof
  fix a assume "a \<in> set (arguments method)"
  then obtain i where i: "i < length (arguments method)" and a: "a = arguments method ! i"
    by (auto simp: in_set_conv_nth)
  from list_all2_nthD [OF printMethodArgsInterface_Inr [OF assms] i] a
  show "resolves spec a" by (auto intro: resolvesI)
qed

lemma optional_iff_default_emitted:
  assumes "printMethodArgsInterface spec clazz method = Inr ai"
    and "printMethodValueInterface spec clazz method = Inr vi"
  shows "length (if_fields ai) = length (arguments method) \<and>
         length (if_fields vi) = length (arguments method) \<and>
         (\<forall>i < length (arguments method).
            fd_name (if_fields ai ! i) = camelCase (arg_name (arguments method ! i)) \<and>
            (fd_optional (if_fields ai ! i) \<longleftrightarrow> default_value (arguments method ! i) \<noteq> None) \<and>
            fd_comment (if_fields ai ! i) = default_value (arguments method ! i) \<and>
            fd_name (if_fields vi ! i) = fd_name (if_fields ai ! i) \<and>
            fd_type (if_fields vi ! i) = fd_type (if_fields ai ! i) \<and>
            \<not> fd_optional (if_fields vi ! i))"
proof -
  note A = printMethodArgsInterface_Inr [OF assms(1)]
  note V = printMethodValueInterface_Inr [OF assms(2)]
  have len: "length (if_fields ai) = length (arguments method)"
    "length (if_fields vi) = length (arguments method)"
    using list_all2_lengthD [OF A] list_all2_lengthD [OF V] by simp_all
  have "fd_name (if_fields ai ! i) = camelCase (arg_name (arguments method ! i)) \<and>
        (fd_optional (if_fields ai ! i) \<longleftrightarrow> default_value (arguments method ! i) \<noteq> None) \<and>
        fd_comment (if_fields ai ! i) = default_value (arguments method ! i) \<and>
        fd_name (if_fields vi ! i) = fd_name (if_fields ai ! i) \<and>
        fd_type (if_fields vi ! i) = fd_type (if_fields ai ! i) \<and>
        \<not> fd_optional (if_fields vi ! i)"
    if "i < length (arguments method)" for i
    using list_all2_nthD [OF A that] list_all2_nthD [OF V that] by auto
  then show ?thesis using len by simp
qed

text \<open>
  C5. For a method whose arguments resolve, both declarations are emitted. In the
  "arguments" declaration the field of an argument is optional if and only if the
  argument carries a default value, and the comment of the field is that default (no
  comment without a default); the "full value" declaration has the same field names
  and types, in the same order, every field mandatory.
\<close>

theorem optional_iff_default:
  assumes "\<forall>a \<in> set (arguments method). resolves spec a"
  shows "\<exists>ai vi.
           printMethodArgsInterface spec clazz method = Inr ai \<and>
           printMethodValueInterface spec clazz method = Inr vi \<and>
           length (if_fields ai) = length (arguments method) \<and>
           length (if_fields vi) = length (arguments method) \<and>
           (\<forall>i < length (arguments method).
              fd_name (if_fields ai ! i) = camelCase (arg_name (arguments method ! i)) \<and>
              (fd_optional (if_fields ai ! i) \<longleftrightarrow> default_value (arguments method ! i) \<noteq> None) \<and>
              fd_comment (if_fields ai ! i) = default_value (arguments method ! i) \<and>
              fd_name (if_fields vi ! i) = fd_name (if_fields ai ! i) \<and>
              fd_type (if_fields vi ! i) = fd_type (if_fields ai ! i) \<and>
              \<not> fd_optional (if_fields vi ! i))"
proof -
  from printMethodArgsInterface_succeeds [OF assms] obtain ai
    where ai: "printMethodArgsInterface spec clazz method = Inr ai" by blast
  from printMethodValueInterface_succeeds [OF assms] obtain vi
    where vi: "printMethodValueInterface spec clazz method = Inr vi" by blast
  from optional_iff_default_emitted [OF ai vi] ai vi show ?thesis
    by (intro exI [of _ ai] exI [of _ vi]) simp
qed

theorem optional_iff_default_witness:
  "\<exists>ai vi.
     printMethodArgsInterface example_spec example_class example_method = Inr ai \<and>
     printMethodValueInterface example_spec example_class example_method = Inr vi \<and>
     length (if_fields ai) = 3 \<and>
     fd_name (if_fields ai ! 0) = ''queueName'' \<and>
     \<not> fd_optional (if_fields ai ! 0) \<and>
     fd_name (if_fields ai ! 1) = ''messageCount'' \<and>
     fd_optional (if_fields ai ! 1) \<and>
     fd_comment (if_fields ai ! 1) = Some (JNumber 0) \<and>
     fd_name (if_fields vi ! 1) = ''messageCount'' \<and>
     \<not> fd_optional (if_fields vi ! 1)"
proof -
  from optional_iff_default [OF example_resolves(1), of example_class] obtain ai vi where
    ai: "printMethodArgsInterface example_spec example_class example_method = Inr ai"
    and vi: "printMethodValueInterface example_spec example_class example_method = Inr vi"
    and len: "length (if_fields ai) = length (arguments example_method)"
    and each: "\<forall>i < length (arguments example_method).
        fd_name (if_fields ai ! i) = camelCase (arg_name (arguments example_method ! i)) \<and>
        (fd_optional (if_fields ai ! i) \<longleftrightarrow> default_value (arguments example_method ! i) \<noteq> None) \<and>
        fd_comment (if_fields ai ! i) = default_value (arguments example_method ! i) \<and>
        fd_name (if_fields vi ! i) = fd_name (if_fields ai ! i) \<and>
        fd_type (if_fields vi ! i) = fd_type (if_fields ai ! i) \<and>
        \<not> fd_optional (if_fields vi ! i)"
    by blast
  have args: "arguments example_method = [example_queue_name, example_message_count, example_no_wait]"
    by (simp add: example_method_def)
  have d: "default_value example_queue_name = None"
    "default_value example_message_count = Some (JNumber 0)"
    by (simp_all add: example_queue_name_def example_message_count_def)
  from each [rule_format, of 0] each [rule_format, of 1] len
  have "length (if_fields ai) = 3 \<and>
     fd_name (if_fields ai ! 0) = ''queueName'' \<and>
     \<not> fd_optional (if_fields ai ! 0) \<and>
     fd_name (if_fields ai ! 1) = ''messageCount'' \<and>
     fd_optional (if_fields ai ! 1) \<and>
     fd_comment (if_fields ai ! 1) = Some (JNumber 0) \<and>
     fd_name (if_fields vi ! 1) = ''messageCount'' \<and>
     \<not> fd_optional (if_fields vi ! 1)"
    by (simp add: args d example_arg_names)
  with ai vi show ?thesis by blast
qed

section \<open>The type lists of the emitted encoder and decoder\<close>






text \<open>The decoder is emitted for no other methods.\<close>

lemma printDecodeMethodFunction_resolves:
  assumes "printDecodeMethodFunction spec clazz method = Inr d"
  shows "\<forall>a \<in> set (arguments method). resolves spec a"
proof
  fix a assume "a \<in> set (arguments method)"
  then obtain i where i: "i < length (arguments method)" and a: "a = arguments method ! i"
    by (auto simp: in_set_conv_nth)
  from assms have "list_all2 (\<lambda>ai m. \<exists>t ty. resolveType spec (fst ai) = Inr t \<and>
        resolveTypescriptType t = Inr ty) (indexed (arguments method)) (dmf_args d)"
    by (auto simp: printDecodeMethodFunction_def Let_def map_err_Inr_iff
        split: sum.splits prod.splits elim!: list_all2_mono)
  from list_all2_nthD [OF this, of i] i a show "resolves spec a"
    by (auto simp: indexed_def intro: resolvesI)
qed




section \<open>The dispatchers\<close>

lemma find_map_comp: "find P (map f xs) = map_option f (find (P \<circ> f) xs)"
  by (induction xs) auto

lemma find_None_image: "k \<notin> f ` set xs \<Longrightarrow> find (\<lambda>x. f x = k) xs = None"
  by (induction xs) auto

lemma find_distinct_member:
  "distinct (map f xs) \<Longrightarrow> x \<in> set xs \<Longrightarrow> find (\<lambda>y. f y = f x) xs = Some x"
  by (induction xs) auto

lemma find_class_case:
  "find (\<lambda>cc. cc_id cc = classId) (printMethodDecoder spec) =
     map_option (\<lambda>clazz.
        \<lparr>cc_id = class_id clazz,
         cc_methods = map (\<lambda>method.
            \<lparr>mc_id = method_id method,
             mc_decoder = ''decode'' @ pascalCase (class_name clazz)
                            @ pascalCase (method_name method)\<rparr>) (methods clazz),
         cc_name = class_name clazz\<rparr>)
       (find (\<lambda>c. class_id c = classId) (spec_classes spec))"
  by (simp add: printMethodDecoder_def find_map_comp comp_def)

lemma find_header_case:
  "find (\<lambda>hc. hc_id hc = classId) (printHeaderDecoder spec) =
     map_option (\<lambda>clazz. \<lparr>hc_id = class_id clazz,
                    hc_decoder = ''decode'' @ pascalCase (class_name clazz) @ ''Header''\<rparr>)
       (find (\<lambda>c. class_id c = classId) (spec_classes spec))"
  by (simp add: printHeaderDecoder_def find_map_comp comp_def)

text \<open>
  C3, as the code has it. If the class id read from the bytes selects a class of the
  schema (the first with this id) and the method id read after it is the id of no
  method of that class, the emitted \<^verbatim>\<open>decodeMethod\<close> throws "Unknown method" with the
  method id and the name of the class: the error names the class, it does not carry
  the class id. If the class id is the id of no class, \<^verbatim>\<open>decodeMethod\<close> (after
  reading both ids) and \<^verbatim>\<open>decodeHeader\<close> (after reading the class id) throw
  "Unknown class" with the class id.
\<close>

theorem unknown_ids_rejected:
  "(decodeShortUint enc data = Inr (classId, r1) \<and>
    decodeShortUint enc r1 = Inr (methodId, r2) \<and>
    find (\<lambda>c. class_id c = classId) (spec_classes spec) = Some clazz \<and>
    methodId \<notin> method_id ` set (methods clazz) \<longrightarrow>
      run_decodeMethod enc decoders (printMethodDecoder spec) data
        = Inl (Unknown_method methodId (class_name clazz))) \<and>
   (decodeShortUint enc data = Inr (classId, r1) \<and>
    decodeShortUint enc r1 = Inr (methodId, r2) \<and>
    classId \<notin> class_id ` set (spec_classes spec) \<longrightarrow>
      run_decodeMethod enc decoders (printMethodDecoder spec) data
        = Inl (Unknown_class classId)) \<and>
   (decodeShortUint enc data = Inr (classId, r1) \<and>
    classId \<notin> class_id ` set (spec_classes spec) \<longrightarrow>
      run_decodeHeader enc header_decoders (printHeaderDecoder spec) data
        = Inl (Unknown_class classId))"
  by (simp add: run_decodeMethod_def run_decodeHeader_def find_class_case find_header_case
      find_None_image find_map_comp comp_def)

theorem unknown_ids_rejected_witness:
  "run_decodeMethod example_codec (map_of (emitted_method_decoders example_spec))
     (printMethodDecoder example_spec) [0, 10, 0, 99] = Inl (Unknown_method 99 ''queue'') \<and>
   run_decodeMethod example_codec (map_of (emitted_method_decoders example_spec))
     (printMethodDecoder example_spec) [0, 77, 0, 40] = Inl (Unknown_class 77) \<and>
   run_decodeHeader example_codec (map_of (emitted_header_decoders example_spec))
     (printHeaderDecoder example_spec) [0, 77] = Inl (Unknown_class 77)"
proof -
  have a1: "decodeShortUint example_codec [0, 10, 0, 99] = Inr (10, [0, 99])"
    and a2: "decodeShortUint example_codec [0, 99] = Inr (99, [])"
    and b1: "decodeShortUint example_codec [0, 77, 0, 40] = Inr (77, [0, 40])"
    and b2: "decodeShortUint example_codec [0, 40] = Inr (40, [])"
    and c1: "decodeShortUint example_codec [0, 77] = Inr (77, [])"
    by code_simp+
  have known: "find (\<lambda>c. class_id c = 10) (spec_classes example_spec) = Some example_class"
    "99 \<notin> method_id ` set (methods example_class)"
    by (simp_all add: example_spec_def example_class_def example_method_def)
  have unknown: "77 \<notin> class_id ` set (spec_classes example_spec)"
    by (simp add: example_spec_def example_class_def example_class_no_properties_def)
  show ?thesis
    using unknown_ids_rejected [where enc = example_codec and data = "[0, 10, 0, 99]"
        and classId = 10 and ?r1.0 = "[0, 99]" and methodId = 99 and ?r2.0 = "[]"
        and spec = example_spec and clazz = example_class
        and decoders = "map_of (emitted_method_decoders example_spec)"
        and header_decoders = "map_of (emitted_header_decoders example_spec)"]
      unknown_ids_rejected [where enc = example_codec and data = "[0, 77, 0, 40]"
        and classId = 77 and ?r1.0 = "[0, 40]" and methodId = 40 and ?r2.0 = "[]"
        and spec = example_spec and clazz = example_class
        and decoders = "map_of (emitted_method_decoders example_spec)"
        and header_decoders = "map_of (emitted_header_decoders example_spec)"]
      unknown_ids_rejected [where enc = example_codec and data = "[0, 77]"
        and classId = 77 and ?r1.0 = "[]" and methodId = 40 and ?r2.0 = "[]"
        and spec = example_spec and clazz = example_class
        and decoders = "map_of (emitted_method_decoders example_spec)"
        and header_decoders = "map_of (emitted_header_decoders example_spec)"]
      a1 a2 b1 b2 c1 known unknown
    by (simp add: example_class_def)
qed

text \<open>
  C3, as the claim states it, fails: the claim has the error carry the class id. In a
  schema whose only class has the id 10 and in one whose only class has the id 20, both
  classes named \<^verbatim>\<open>q\<close>, the emitted \<^verbatim>\<open>decodeMethod\<close> throws one and the same error for
  the method id 1 of the class id 10 and of the class id 20: the class id is not in it.
\<close>

theorem unknown_method_error_without_class_id:
  "run_decodeMethod example_codec Map.empty (printMethodDecoder (one_class_spec 10))
     [0, 10, 0, 1] = Inl (Unknown_method 1 ''q'') \<and>
   run_decodeMethod example_codec Map.empty (printMethodDecoder (one_class_spec 20))
     [0, 20, 0, 1] = Inl (Unknown_method 1 ''q'')"
proof -
  have "decodeShortUint example_codec [0, 10, 0, 1] = Inr (10, [0, 1])"
    and "decodeShortUint example_codec [0, 20, 0, 1] = Inr (20, [0, 1])"
    and "decodeShortUint example_codec [0, 1] = Inr (1, [])"
    by code_simp+
  then show ?thesis
    by (simp add: run_decodeMethod_def printMethodDecoder_def one_class_spec_def)
qed

section \<open>Object literals\<close>












lemma object_literal_Nil: "object_literal [] = Map.empty"
  by (simp add: object_literal_def)


section \<open>Headers\<close>



text \<open>
  In the module of a schema whose emitted decoders have distinct names, the name of a
  decoder is bound to the decoder emitted for its class, or for its class and method.
\<close>

lemma emitted_header_decoders_binds:
  assumes "distinct (map fst (emitted_header_decoders spec))"
    and "clazz \<in> set (spec_classes spec)"
    and "printDecodeHeaderFunction clazz = Inr d"
  shows "map_of (emitted_header_decoders spec) (dhf_name d) = Some d"
proof -
  have "(dhf_name d, d) \<in> set (emitted_header_decoders spec)"
    using assms(2,3) by (force simp: emitted_header_decoders_def)
  with assms(1) show ?thesis by (rule map_of_is_SomeI)
qed

lemma emitted_method_decoders_binds:
  assumes "distinct (map fst (emitted_method_decoders spec))"
    and "clazz \<in> set (spec_classes spec)" and "method \<in> set (methods clazz)"
    and "printDecodeMethodFunction spec clazz method = Inr d"
  shows "map_of (emitted_method_decoders spec) (dmf_name d) = Some d"
proof -
  have "(dmf_name d, d) \<in> set (emitted_method_decoders spec)"
    using assms(2,3,4) by (force simp: emitted_method_decoders_def)
  with assms(1) show ?thesis by (rule map_of_is_SomeI)
qed

text \<open>
  C9. The emitted header decoder of a class reads the weight and does not use it: from
  two buffers that differ in the weight read and agree behind it, it returns the same
  result, and so does \<^verbatim>\<open>decodeHeader\<close> on two byte sequences with the same class
  id; the emitted header encoder writes \<^verbatim>\<open>enc.encodeShortUint(0)\<close> in this place.
\<close>

theorem weight_ignored:
  assumes "printDecodeHeaderFunction clazz = Inr f"
    and "decodeShortUint enc r = Inr (weight, rest)"
    and "decodeShortUint enc r' = Inr (weight', rest)"
  shows "run_decodeHeaderFunction enc f r = run_decodeHeaderFunction enc f r' \<and>
         (decodeShortUint enc data = Inr (classId, r) \<and>
          decodeShortUint enc data' = Inr (classId, r') \<and>
          header_decoders (dhf_name f) = Some f \<and>
          find (\<lambda>c. class_id c = classId) (spec_classes spec) = Some clazz \<longrightarrow>
            run_decodeHeader enc header_decoders (printHeaderDecoder spec) data =
            run_decodeHeader enc header_decoders (printHeaderDecoder spec) data') \<and>
         (run_encodeHeaderFunction enc (printEncodeHeaderFunction clazz) body_size props = Inr bs \<longrightarrow>
            (\<exists>b1 b2 b3 b4. bs = b1 @ b2 @ b3 @ b4 \<and>
               encodeShortUint enc (class_id clazz) = Inr b1 \<and>
               encodeShortUint enc 0 = Inr b2 \<and>
               encodeLongLongUint enc body_size = Inr b3))"
proof -
  have 1: "run_decodeHeaderFunction enc f r = run_decodeHeaderFunction enc f r'"
    using assms(2,3) by (simp add: run_decodeHeaderFunction_def)
  have name: "dhf_name f = ''decode'' @ pascalCase (class_name clazz) @ ''Header''"
    using assms(1) by (auto simp: printDecodeHeaderFunction_def Let_def split: sum.splits)
  have 2: "run_decodeHeader enc header_decoders (printHeaderDecoder spec) data =
           run_decodeHeader enc header_decoders (printHeaderDecoder spec) data'"
    if "decodeShortUint enc data = Inr (classId, r)"
      "decodeShortUint enc data' = Inr (classId, r')"
      "header_decoders (dhf_name f) = Some f"
      "find (\<lambda>c. class_id c = classId) (spec_classes spec) = Some clazz"
    using that 1 name by (simp add: run_decodeHeader_def find_header_case)
  have 3: "\<exists>b1 b2 b3 b4. bs = b1 @ b2 @ b3 @ b4 \<and>
               encodeShortUint enc (class_id clazz) = Inr b1 \<and>
               encodeShortUint enc 0 = Inr b2 \<and>
               encodeLongLongUint enc body_size = Inr b3"
    if "run_encodeHeaderFunction enc (printEncodeHeaderFunction clazz) body_size props = Inr bs"
    using that
    by (auto simp: run_encodeHeaderFunction_def printEncodeHeaderFunction_def split: sum.splits)
  show ?thesis using 1 2 3 by blast
qed

theorem weight_ignored_witness:
  "run_decodeHeaderFunction example_codec example_decode_header_fn
     [0, 0, 0, 0, 0, 0, 0, 0, 0, 5, 1, 1, 120, 0] =
   run_decodeHeaderFunction example_codec example_decode_header_fn
     [0, 7, 0, 0, 0, 0, 0, 0, 0, 5, 1, 1, 120, 0] \<and>
   run_decodeHeader example_codec example_header_decoders (printHeaderDecoder example_spec)
     [0, 10, 0, 0, 0, 0, 0, 0, 0, 0, 0, 5, 1, 1, 120, 0] =
   run_decodeHeader example_codec example_header_decoders (printHeaderDecoder example_spec)
     [0, 10, 0, 7, 0, 0, 0, 0, 0, 0, 0, 5, 1, 1, 120, 0] \<and>
   (\<exists>b1 b3 b4. [0, 10, 0, 0, 0, 0, 0, 0, 0, 0, 0, 5, 1, 1, 120, 0] = b1 @ [0, 0] @ b3 @ b4 \<and>
      encodeShortUint example_codec (class_id example_class) = Inr b1 \<and>
      encodeShortUint example_codec 0 = Inr [0, 0] \<and>
      encodeLongLongUint example_codec 5 = Inr b3)"
proof -
  have w: "decodeShortUint example_codec [0, 0, 0, 0, 0, 0, 0, 0, 0, 5, 1, 1, 120, 0]
      = Inr (0, [0, 0, 0, 0, 0, 0, 0, 5, 1, 1, 120, 0])"
    and w': "decodeShortUint example_codec [0, 7, 0, 0, 0, 0, 0, 0, 0, 5, 1, 1, 120, 0]
      = Inr (7, [0, 0, 0, 0, 0, 0, 0, 5, 1, 1, 120, 0])"
    and c: "decodeShortUint example_codec [0, 10, 0, 0, 0, 0, 0, 0, 0, 0, 0, 5, 1, 1, 120, 0]
      = Inr (10, [0, 0, 0, 0, 0, 0, 0, 0, 0, 5, 1, 1, 120, 0])"
    and c': "decodeShortUint example_codec [0, 10, 0, 7, 0, 0, 0, 0, 0, 0, 0, 5, 1, 1, 120, 0]
      = Inr (10, [0, 7, 0, 0, 0, 0, 0, 0, 0, 5, 1, 1, 120, 0])"
    and z: "encodeShortUint example_codec 0 = Inr [0, 0]"
    by code_simp+
  have written: "run_encodeHeaderFunction example_codec (printEncodeHeaderFunction example_class)
      5 example_props = Inr [0, 10, 0, 0, 0, 0, 0, 0, 0, 0, 0, 5, 1, 1, 120, 0]"
    by code_simp
  have bound: "example_header_decoders (dhf_name example_decode_header_fn)
      = Some example_decode_header_fn"
    by (simp add: example_header_decoders_def example_decode_header_fn_def)
  have found: "find (\<lambda>c. class_id c = 10) (spec_classes example_spec) = Some example_class"
    by (simp add: example_spec_def example_class_def)
  note T = weight_ignored [OF example_emitted(5) w w',
      where data = "[0, 10, 0, 0, 0, 0, 0, 0, 0, 0, 0, 5, 1, 1, 120, 0]"
        and data' = "[0, 10, 0, 7, 0, 0, 0, 0, 0, 0, 0, 5, 1, 1, 120, 0]"
        and classId = 10 and header_decoders = example_header_decoders
        and spec = example_spec and body_size = 5 and props = example_props
        and bs = "[0, 10, 0, 0, 0, 0, 0, 0, 0, 0, 0, 5, 1, 1, 120, 0]"]
  from T c c' bound found written z show ?thesis
    by auto
qed





text \<open>
  C10. For a class without a \<^verbatim>\<open>properties\<close> member the three emitters succeed:
  the emitted properties declaration has no fields, the emitted header encoder hands an
  empty list to \<^verbatim>\<open>enc.encodeOptionalFields\<close>, and the emitted header decoder asks
  for no types and returns an empty properties object.
\<close>

theorem no_properties_emitters:
  assumes "properties clazz = None"
  shows "printClassPropertyInterface clazz =
           Inr \<lparr>if_name = pascalCase (class_name clazz) @ ''Properties'', if_extends = None,
                if_fields = []\<rparr> \<and>
         ehf_fields (printEncodeHeaderFunction clazz) = [] \<and>
         (\<exists>d. printDecodeHeaderFunction clazz = Inr d \<and> dhf_types d = [] \<and> dhf_props d = [] \<and>
              (\<forall>enc r h. run_decodeHeaderFunction enc d r = Inr h \<longrightarrow> h_props h = Map.empty))"
  using assms
  by (auto simp: printClassPropertyInterface_def printEncodeHeaderFunction_def
      printDecodeHeaderFunction_def properties_or_empty_def indexed_def
      run_decodeHeaderFunction_def object_literal_Nil split: sum.splits)

theorem no_properties_emitters_witness:
  "printClassPropertyInterface example_class_no_properties =
     Inr \<lparr>if_name = ''ChannelProperties'', if_extends = None, if_fields = []\<rparr> \<and>
   ehf_fields (printEncodeHeaderFunction example_class_no_properties) = [] \<and>
   (\<exists>d h. printDecodeHeaderFunction example_class_no_properties = Inr d \<and>
      dhf_types d = [] \<and> dhf_props d = [] \<and>
      run_decodeHeaderFunction example_codec d [0, 0, 0, 0, 0, 0, 0, 0, 0, 5] = Inr h \<and>
      h_props h = Map.empty)"
proof -
  have none: "properties example_class_no_properties = None"
    by (simp add: example_class_no_properties_def)
  note T = no_properties_emitters [OF none]
  from T obtain d where d: "printDecodeHeaderFunction example_class_no_properties = Inr d"
    "dhf_types d = []" "dhf_props d = []"
    and empty: "\<And>enc r h. run_decodeHeaderFunction enc d r = Inr h \<Longrightarrow> h_props h = Map.empty"
    by blast
  have w: "decodeShortUint example_codec [0, 0, 0, 0, 0, 0, 0, 0, 0, 5]
             = Inr (0, [0, 0, 0, 0, 0, 0, 0, 5])"
    and s: "decodeLongLongUint example_codec [0, 0, 0, 0, 0, 0, 0, 5] = Inr (5, [])"
    and f: "decodeOptionalFields example_codec [] [] = Inr ([], [])"
    by code_simp+
  have run: "run_decodeHeaderFunction example_codec d [0, 0, 0, 0, 0, 0, 0, 0, 0, 5]
      = Inr \<lparr>h_classId = dhf_classId d, h_size = 5, h_props = object_literal []\<rparr>"
    by (simp add: run_decodeHeaderFunction_def w s f d)
  from empty [OF run] have "h_props \<lparr>h_classId = dhf_classId d, h_size = 5,
      h_props = object_literal []\<rparr> = Map.empty" .
  with T d run show ?thesis
    by (auto simp: example_class_no_properties_def example_names)
qed

section \<open>Methods\<close>










end
